theory Spec2Isabelle
  imports Main "HOL-Library.Word"
begin

unbundle bit_operations_syntax

section \<open>Bytes, little-endian words and the FNV-1a hash\<close>

text \<open>
  The relay of \<^verbatim>\<open>conn.go\<close> moves samples between a WebRTC peer and a mangos
  publish/subscribe bus. A Go \<^verbatim>\<open>byte\<close> is an 8-bit word, a \<^verbatim>\<open>uint32\<close> a 32-bit word.
  A Go \<^verbatim>\<open>string\<close> is a sequence of bytes (the UTF-8 encoding of its text), as an
  Isabelle \<open>string\<close> is: \<open>of_char\<close> reads one byte of it.
\<close>

type_synonym byte = "8 word"
type_synonym uint32 = "32 word"

text \<open>
  \<^verbatim>\<open>binary.LittleEndian.PutUint32(b, v)\<close> stores \<^verbatim>\<open>byte(v)\<close>, \<^verbatim>\<open>byte(v >> 8)\<close>,
  \<^verbatim>\<open>byte(v >> 16)\<close>, \<^verbatim>\<open>byte(v >> 24)\<close> in \<^verbatim>\<open>b[0..3]\<close>; in \<^verbatim>\<open>setTopic\<close> the slice is
  \<^verbatim>\<open>make([]byte, 4)\<close>, so these four bytes are the whole slice.
  \<^verbatim>\<open>binary.Write(buf, binary.LittleEndian, v)\<close> with \<^verbatim>\<open>v\<close> a \<^verbatim>\<open>uint32\<close> appends the same
  four bytes to the buffer.
\<close>

definition PutUint32 :: "uint32 \<Rightarrow> byte list" where
  "PutUint32 v = [ucast v, ucast (drop_bit 8 v), ucast (drop_bit 16 v), ucast (drop_bit 24 v)]"

text \<open>
  \<^verbatim>\<open>binary.LittleEndian.Uint32(b)\<close> is
  \<^verbatim>\<open>uint32(b[0]) | uint32(b[1])<<8 | uint32(b[2])<<16 | uint32(b[3])<<24\<close>. The code calls it
  on \<^verbatim>\<open>data[4:8]\<close> only, a slice of exactly four bytes.
\<close>

definition Uint32 :: "byte list \<Rightarrow> uint32" where
  "Uint32 b = ucast (b ! 0) OR push_bit 8 (ucast (b ! 1))
                OR push_bit 16 (ucast (b ! 2)) OR push_bit 24 (ucast (b ! 3))"

text \<open>
  \<^verbatim>\<open>hash/fnv\<close>, \<^verbatim>\<open>New32a\<close>: the state starts at the offset basis; \<^verbatim>\<open>Write\<close> does, for each
  byte \<^verbatim>\<open>c\<close>, \<^verbatim>\<open>hash ^= uint32(c); hash *= prime32\<close>, in 32-bit arithmetic.
\<close>

definition offset32 :: uint32 where
  "offset32 = 2166136261"

definition prime32 :: uint32 where
  "prime32 = 16777619"

fun fnv32a_Write :: "uint32 \<Rightarrow> byte list \<Rightarrow> uint32" where
  "fnv32a_Write h [] = h"
| "fnv32a_Write h (c # cs) = fnv32a_Write ((h XOR ucast c) * prime32) cs"

text \<open>\<^verbatim>\<open>func hash(s string) uint32\<close> (lines 400-404).\<close>

definition hash :: "string \<Rightarrow> uint32" where
  "hash s = fnv32a_Write offset32 (map of_char s)"

section \<open>The session\<close>

text \<open>
  Pointers to objects of other packages (the WebRTC peer, the websocket connection, a
  mangos socket) are handles: a number that names the object. Two fields that hold the
  same handle share the object, as the publishers share \<^verbatim>\<open>pubSocket\<close>.
\<close>

type_synonym handle = nat

text \<open>
  An \<^verbatim>\<open>error\<close> value: the sentinel \<^verbatim>\<open>mangos.ErrClosed\<close>, which the code compares
  with \<^verbatim>\<open>==\<close>, or any other error, known by its text.
\<close>

datatype error = ErrClosed | Err string

fun Error :: "error \<Rightarrow> string" where
  "Error ErrClosed = ''object closed''"
| "Error (Err s) = s"

datatype chanState = ChanOpen | ChanClosed

text \<open>\<^verbatim>\<open>media.Sample\<close> of pion/webrtc v2: the payload and the number of samples.\<close>

record Sample =
  Data :: "byte list"
  Samples :: uint32

text \<open>\<^verbatim>\<open>wsMsg\<close>: a key and a raw JSON value.\<close>

record wsMsg =
  Key :: string
  Value :: string

text \<open>\<^verbatim>\<open>CmdConnect\<close>: the fields \<^verbatim>\<open>connectPublisher\<close> and \<^verbatim>\<open>connectSubscriber\<close> read.\<close>

record CmdConnect =
  Channel :: string
  Password :: string

text \<open>
  \<^verbatim>\<open>type Conn struct\<close> (lines 49-69). A nil pointer, interface or channel is \<open>None\<close>.
  The embedded \<^verbatim>\<open>sync.Mutex\<close> is not a field of the record: it is the \<open>mutex\<close> of the
  subsection on the session mutex below, passed beside the session. The functions on
  \<open>Conn\<close> are what the code does once it has the mutex, each as one step. The channels \<^verbatim>\<open>errChan\<close> and
  \<^verbatim>\<open>infoChan\<close> are unbuffered and never closed; a send on them is an effect. The logger
  is the effect \<open>Log\<close>; the prefix \<^verbatim>\<open>c.Log\<close> puts before each line, the remote address
  of \<^verbatim>\<open>c.wsConn\<close>, is left out, and a log line is recorded as written also for a
  session whose \<^verbatim>\<open>wsConn\<close> is nil (\<^verbatim>\<open>NewConn\<close> is given the accepted websocket, and no
  function assigns the field afterwards).
\<close>

record Conn =
  rtcPeer :: "handle option"
  wsConn :: "handle option"
  spSock :: "handle option"
  channelName :: string
  spTopic :: "byte list"
  trackQuitChan :: "chanState option"
  isPublisher :: bool
  hasClosed :: bool

text \<open>
  What a function does to the world outside the session, in the order it does it: the
  calls on handles, the sends on the session's channels, the log lines.
\<close>

datatype effect =
    Log string
  | CloseChan
  | PeerClose handle
  | SockClose handle
  | WsClose handle
  | WsWriteMessage handle string
  | JsonMarshalString string
  | JsonMarshalMsg wsMsg
  | SockDial handle string
  | SockSubscribe handle "byte list"
  | SockSend handle "byte list"
  | SockRecv handle
  | RegAddPublisher string
  | RegAddSubscriber string
  | ErrChanSend error
  | InfoChanSend string
  | TrackWriteSample handle Sample
  | ReadRTP
  | SbPush "byte list"
  | SbPop
  | GoSubscriberLoop

text \<open>How one pass of a loop body ends.\<close>

datatype control = Continue | Return | Panicked string

text \<open>\<^verbatim>\<open>NewConn\<close> (lines 71-81).\<close>

definition NewConn :: "handle option \<Rightarrow> Conn" where
  "NewConn ws =
     \<lparr>rtcPeer = None, wsConn = ws, spSock = None, channelName = [], spTopic = [],
      trackQuitChan = Some ChanOpen, isPublisher = False, hasClosed = False\<rparr>"

subsection \<open>Channel names and topics\<close>

text \<open>
  \<^verbatim>\<open>channelRegexp = regexp.MustCompile("[^a-zA-Z0-9 ]+")\<close>, and
  \<^verbatim>\<open>channelRegexp.MatchString(s)\<close>: some substring of \<^verbatim>\<open>s\<close> is a non-empty run of
  characters outside the class, that is, \<^verbatim>\<open>s\<close> has a character outside it. Go matches
  code points; a byte below 128 is a code point of its own, and every byte from 128 on
  belongs to a code point from 128 on or is read as U+FFFD, both outside the class. So
  the match is: some byte of \<^verbatim>\<open>s\<close> is not an ASCII letter, digit or space.
\<close>

definition inChannelClass :: "char \<Rightarrow> bool" where
  "inChannelClass ch =
     (let n = (of_char ch :: nat) in
        (97 \<le> n \<and> n \<le> 122) \<or> (65 \<le> n \<and> n \<le> 90) \<or> (48 \<le> n \<and> n \<le> 57) \<or> n = 32)"

definition channelRegexp_MatchString :: "string \<Rightarrow> bool" where
  "channelRegexp_MatchString s = list_ex (\<lambda>ch. \<not> inChannelClass ch) s"

text \<open>
  \<^verbatim>\<open>setTopic\<close> (lines 392-398). The body hashes the field \<^verbatim>\<open>c.channelName\<close>, not its
  parameter.
\<close>

definition setTopic :: "string \<Rightarrow> Conn \<Rightarrow> Conn" where
  "setTopic name c = c\<lparr>spTopic := PutUint32 (hash (channelName c))\<rparr>"

subsection \<open>Close\<close>

text \<open>
  The body of \<^verbatim>\<open>Close\<close> (lines 233-248), run under the session mutex; the whole call,
  with its \<^verbatim>\<open>c.Lock()\<close> and deferred \<^verbatim>\<open>c.Unlock()\<close>, is \<open>Conn_Close\<close> below. \<^verbatim>\<open>close\<close> of a
  channel that is closed already panics in Go; the other three closes are calls on
  handles.
\<close>

definition Close :: "Conn \<Rightarrow> string + effect list \<times> Conn" where
  "Close c =
     (if hasClosed c then Inr ([], c)
      else if trackQuitChan c = Some ChanClosed then Inl ''close of closed channel''
      else
        let e1 = (case trackQuitChan c of None \<Rightarrow> [] | Some q \<Rightarrow> [CloseChan]);
            c1 = (case trackQuitChan c of None \<Rightarrow> c | Some q \<Rightarrow> c\<lparr>trackQuitChan := Some ChanClosed\<rparr>);
            e2 = (case rtcPeer c1 of None \<Rightarrow> [] | Some p \<Rightarrow> [PeerClose p]);
            e3 = (case spSock c1 of None \<Rightarrow> []
                  | Some s \<Rightarrow> if \<not> isPublisher c1 then [SockClose s] else []);
            e4 = (case wsConn c1 of None \<Rightarrow> [] | Some w \<Rightarrow> [WsClose w])
        in Inr (e1 @ e2 @ e3 @ e4, c1\<lparr>hasClosed := True\<rparr>))"

subsection \<open>Binding a role\<close>

text \<open>
  What the package and the libraries answer during a connect: the package variables
  \<^verbatim>\<open>publisherPassword\<close> and \<^verbatim>\<open>pubSocket\<close> (declared in another file), and the results of
  \<^verbatim>\<open>reg.AddPublisher\<close>, \<^verbatim>\<open>reg.AddSubscriber\<close>, \<^verbatim>\<open>sub.NewSocket\<close>, \<^verbatim>\<open>Dial\<close> and
  \<^verbatim>\<open>SetOption\<close>.
\<close>

record Ext =
  publisherPassword :: string
  pubSocket :: "handle option"
  reg_AddPublisher :: "error option"
  reg_AddSubscriber :: "error option"
  sub_NewSocket :: "error + handle"
  sock_Dial :: "error option"
  sock_SetOption :: "error option"

text \<open>\<^verbatim>\<open>connectPublisher\<close> (lines 120-154): the returned error, the effects, the session.\<close>

definition connectPublisher :: "Ext \<Rightarrow> CmdConnect \<Rightarrow> Conn \<Rightarrow> error option \<times> effect list \<times> Conn" where
  "connectPublisher x cmd c =
     (if rtcPeer c = None then (Some (Err ''webrtc session not established''), [], c)
      else if Channel cmd = [] then (Some (Err ''channel cannot be empty''), [], c)
      else if channelRegexp_MatchString (Channel cmd)
        then (Some (Err ''channel name must contain only alphanumeric characters''), [], c)
      else if publisherPassword x \<noteq> [] \<and> Password cmd \<noteq> publisherPassword x
        then (Some (Err ''incorrect password''), [], c)
      else
        let c1 = c\<lparr>channelName := Channel cmd\<rparr>;
            e1 = [Log (''setting up publisher for channel '' @ [CHR 0x27] @ channelName c1
                        @ [CHR 0x27, CHR 0x0A])];
            c2 = setTopic (channelName c1) c1;
            c3 = c2\<lparr>spSock := pubSocket x\<rparr>;
            e2 = [RegAddPublisher (channelName c3)]
        in (case reg_AddPublisher x of
              Some err \<Rightarrow> (Some err, e1 @ e2, c3)
            | None \<Rightarrow> (None, e1 @ e2, c3)))"

text \<open>
  \<^verbatim>\<open>connectSubscriber\<close> (lines 156-228) up to the start of its goroutine, which is the
  effect \<open>GoSubscriberLoop\<close>. On an error of \<^verbatim>\<open>sub.NewSocket\<close> the assignment stores the
  nil socket it returns.
\<close>

definition connectSubscriber :: "Ext \<Rightarrow> CmdConnect \<Rightarrow> Conn \<Rightarrow> error option \<times> effect list \<times> Conn" where
  "connectSubscriber x cmd c =
     (if rtcPeer c = None then (Some (Err ''webrtc session not established''), [], c)
      else if Channel cmd = [] then (Some (Err ''channel cannot be empty''), [], c)
      else if channelRegexp_MatchString (Channel cmd)
        then (Some (Err ''channel name must contain only alphanumeric characters''), [], c)
      else
        let c1 = c\<lparr>channelName := Channel cmd\<rparr>;
            e1 = [Log (''setting up subscriber for channel '' @ [CHR 0x27] @ channelName c1
                        @ [CHR 0x27, CHR 0x0A])]
        in (case sub_NewSocket x of
              Inl err \<Rightarrow>
                (Some (Err (''can't get new sub socket: '' @ Error err)), e1, c1\<lparr>spSock := None\<rparr>)
            | Inr s \<Rightarrow>
                let c2 = c1\<lparr>spSock := Some s\<rparr>;
                    e2 = [SockDial s ''inproc://babelcast/'']
                in (case sock_Dial x of
                      Some err \<Rightarrow> (Some (Err (''sub can't dial '' @ Error err)), e1 @ e2, c2)
                    | None \<Rightarrow>
                        let c3 = setTopic (channelName c2) c2;
                            e3 = [SockSubscribe s (spTopic c3)]
                        in (case sock_SetOption x of
                              Some err \<Rightarrow>
                                (Some (Err (''sub can't subscribe '' @ Error err)), e1 @ e2 @ e3, c3)
                            | None \<Rightarrow>
                                let e4 = [RegAddSubscriber (channelName c3)]
                                in (case reg_AddSubscriber x of
                                      Some err \<Rightarrow> (Some err, e1 @ e2 @ e3 @ e4, c3)
                                    | None \<Rightarrow>
                                        (None, e1 @ e2 @ e3 @ e4 @ [GoSubscriberLoop], c3))))))"

subsection \<open>The subscriber's receive loop\<close>

text \<open>
  Lines 218-221: \<^verbatim>\<open>sample.Samples = binary.LittleEndian.Uint32(data[4:8])\<close> and
  \<^verbatim>\<open>sample.Data = data[8:]\<close>. There is no check of \<^verbatim>\<open>len(data)\<close>. The slice
  \<^verbatim>\<open>data[4:8]\<close> is in range up to the capacity of \<^verbatim>\<open>data\<close> and \<^verbatim>\<open>data[8:]\<close> up to its
  length, so with fewer than 8 bytes one of the two panics (slice bounds out of range)
  before anything is written to the track.
\<close>

definition sampleOf :: "byte list \<Rightarrow> string + Sample" where
  "sampleOf data =
     (if length data < 8 then Inl ''slice bounds out of range''
      else Inr \<lparr>Data = drop 8 data, Samples = Uint32 (take 4 (drop 4 data))\<rparr>)"

text \<open>
  What the world answers in one pass of the loop of lines 202-224: whether the context
  is done at the \<^verbatim>\<open>select\<close>, the result of \<^verbatim>\<open>c.spSock.Recv()\<close>, and the error of
  \<^verbatim>\<open>WriteSample\<close>, which line 223 does not read.
\<close>

record subIn =
  ctxDone :: bool
  recv :: "error + byte list"
  writeSample :: "error option"

definition subscriberIter :: "Conn \<Rightarrow> subIn \<Rightarrow> effect list \<times> control" where
  "subscriberIter c i =
     (if ctxDone i then ([], Return)
      else
        (case spSock c of
           None \<Rightarrow> ([], Panicked ''nil pointer dereference'')
         | Some s \<Rightarrow>
             (case recv i of
                Inl err \<Rightarrow>
                  if err = ErrClosed
                  then ([SockRecv s, Log (''sub sock recv err: '' @ Error err @ [CHR 0x0A])], Return)
                  else ([SockRecv s,
                         ErrChanSend (Err (''sub sock recv err '' @ Error err @ [CHR 0x0A]))],
                        Continue)
              | Inr data \<Rightarrow>
                  (case sampleOf data of
                     Inl p \<Rightarrow> ([SockRecv s], Panicked p)
                   | Inr sample \<Rightarrow>
                       (case rtcPeer c of
                          None \<Rightarrow> ([SockRecv s], Panicked ''nil pointer dereference'')
                        | Some peer \<Rightarrow>
                            ([SockRecv s, TrackWriteSample peer sample], Continue))))))"

text \<open>
  The \<^verbatim>\<open>for\<close> loop over the answers of the world, one per pass. When the answers run
  out the loop is still running (\<open>Continue\<close>): it waits in \<^verbatim>\<open>Recv\<close>.
\<close>

fun subscriberLoop :: "Conn \<Rightarrow> subIn list \<Rightarrow> effect list \<times> control" where
  "subscriberLoop c [] = ([], Continue)"
| "subscriberLoop c (i # rest) =
     (case subscriberIter c i of
        (es, Continue) \<Rightarrow> (case subscriberLoop c rest of (es', r) \<Rightarrow> (es @ es', r))
      | (es, r) \<Rightarrow> (es, r))"

text \<open>
  The goroutine of lines 197-225. When the loop returns or panics, the deferred calls
  run, last deferred first: \<^verbatim>\<open>c.Close()\<close>, then the log line.
\<close>

definition subscriberGoroutine :: "Conn \<Rightarrow> subIn list \<Rightarrow> effect list \<times> Conn \<times> control" where
  "subscriberGoroutine c ins =
     (case subscriberLoop c ins of
        (es, Continue) \<Rightarrow> (es, c, Continue)
      | (es, r) \<Rightarrow>
          (case Close c of
             Inl p \<Rightarrow> (es @ [Log (''sub read goroutine quitting...'' @ [CHR 0x0A])], c, Panicked p)
           | Inr (es', c') \<Rightarrow>
               (es @ es' @ [Log (''sub read goroutine quitting...'' @ [CHR 0x0A])], c', r)))"

subsection \<open>The publisher's track loop\<close>

text \<open>
  Lines 300-302: a buffer that starts as the topic, then the sample count in little
  endian, then the payload. \<^verbatim>\<open>c.spTopic\<close> has capacity 4, so the writes go to a fresh
  array and leave the topic as it is.
\<close>

definition frameOf :: "byte list \<Rightarrow> Sample \<Rightarrow> byte list" where
  "frameOf topic sample = topic @ PutUint32 (Samples sample) @ Data sample"

text \<open>
  What the world answers in one pass of the loop of lines 273-311: the result of
  \<^verbatim>\<open>track.ReadRTP()\<close> (a packet is its bytes), what \<^verbatim>\<open>sb.Pop()\<close> returns after the push
  (nil or a sample), and the error of \<^verbatim>\<open>c.spSock.Send\<close>. The sample builder is
  pion's; its calls are the effects \<open>SbPush\<close> and \<open>SbPop\<close>.
\<close>

record trackIn =
  readRTP :: "error + byte list"
  sbPop :: "Sample option"
  send :: "error option"

text \<open>
  One pass. A receive from the closed \<^verbatim>\<open>trackQuitChan\<close> succeeds; from an open or nil
  one the \<^verbatim>\<open>select\<close> takes \<^verbatim>\<open>default\<close>. The return at line 306 leaves the session mutex
  locked; \<open>rtcTrackHandlerIter_mu\<close> below is the same pass with the mutex.
\<close>

definition rtcTrackHandlerIter :: "Conn \<Rightarrow> trackIn \<Rightarrow> effect list \<times> control" where
  "rtcTrackHandlerIter c i =
     (if trackQuitChan c = Some ChanClosed then ([], Return)
      else
        (case readRTP i of
           Inl err \<Rightarrow>
             ([ReadRTP, ErrChanSend (Err (''error reading RTP packet: '' @ Error err))], Continue)
         | Inr p \<Rightarrow>
             (case spSock c of
                None \<Rightarrow> ([ReadRTP], Continue)
              | Some s \<Rightarrow>
                  (case sbPop i of
                     None \<Rightarrow> ([ReadRTP, SbPush p, SbPop], Continue)
                   | Some sample \<Rightarrow>
                       (case send i of
                          None \<Rightarrow>
                            ([ReadRTP, SbPush p, SbPop, SockSend s (frameOf (spTopic c) sample)],
                             Continue)
                        | Some err \<Rightarrow>
                            if err = ErrClosed
                            then ([ReadRTP, SbPush p, SbPop, SockSend s (frameOf (spTopic c) sample),
                                   Log (''sub sock send err: '' @ Error err @ [CHR 0x0A])], Return)
                            else ([ReadRTP, SbPush p, SbPop, SockSend s (frameOf (spTopic c) sample),
                                   ErrChanSend (Err (''pub send failed: '' @ Error err))],
                                  Continue))))))"

subsection \<open>The session mutex\<close>

text \<open>
  The embedded \<^verbatim>\<open>sync.Mutex\<close>. \<^verbatim>\<open>Lock\<close> on a free mutex takes it. \<^verbatim>\<open>Lock\<close> on a held
  mutex does not return before the mutex is unlocked: \<open>None\<close>, the caller waits. Each
  function of \<^verbatim>\<open>conn.go\<close> is one step here, so between two steps the mutex is held only
  when a step ended without unlocking it. Every \<^verbatim>\<open>Unlock\<close> of \<^verbatim>\<open>conn.go\<close> follows a
  \<^verbatim>\<open>Lock\<close> of the same call (lines 138-140, 145-147, 175-191, 231-232, 257-258, 285-291,
  298-310, 379-387, 394-397), so a mutex that its holder left locked is not unlocked by
  any other call: a caller that waits for it waits for ever.
\<close>

datatype mutex = Unlocked | Locked

definition Lock :: "mutex \<Rightarrow> mutex option" where
  "Lock m = (case m of Unlocked \<Rightarrow> Some Locked | Locked \<Rightarrow> None)"

definition Unlock :: "mutex \<Rightarrow> mutex" where
  "Unlock m = Unlocked"

text \<open>
  \<^verbatim>\<open>Close\<close> with its lines 231-232. The call waits in \<^verbatim>\<open>c.Lock()\<close> and has done nothing
  (\<open>None\<close>), or it takes the mutex and runs the body \<open>Close\<close>; the deferred \<^verbatim>\<open>c.Unlock()\<close>
  then frees the mutex, also when the body panics.
\<close>

definition Conn_Close :: "mutex \<Rightarrow> Conn \<Rightarrow> mutex \<times> (string + effect list \<times> Conn) option" where
  "Conn_Close m c =
     (case Lock m of
        None \<Rightarrow> (m, None)
      | Some m1 \<Rightarrow> (Unlock m1, Some (Close c)))"

text \<open>
  Several calls of \<^verbatim>\<open>Close\<close>, from any callers, one after the other. A call that waits
  in \<^verbatim>\<open>c.Lock()\<close> has done nothing when the next caller calls; a panic ends the run. The
  result: the effects of all the calls, how many of them have returned, the mutex and the
  session.
\<close>

fun CloseTimes :: "nat \<Rightarrow> mutex \<Rightarrow> Conn \<Rightarrow> string + effect list \<times> nat \<times> mutex \<times> Conn" where
  "CloseTimes 0 m c = Inr ([], 0, m, c)"
| "CloseTimes (Suc n) m c =
     (case Conn_Close m c of
        (m', None) \<Rightarrow> CloseTimes n m' c
      | (m', Some (Inl p)) \<Rightarrow> Inl p
      | (m', Some (Inr (es, c'))) \<Rightarrow>
          (case CloseTimes n m' c' of
             Inl p \<Rightarrow> Inl p
           | Inr (es', k, m'', c'') \<Rightarrow> Inr (es @ es', Suc k, m'', c'')))"

text \<open>
  One pass of the loop of lines 273-311 with its four lines on the mutex: \<^verbatim>\<open>c.Lock()\<close>
  at 285 and 298, \<^verbatim>\<open>c.Unlock()\<close> at 288, 291 and 310. The result has the mutex as the
  pass leaves it; the control is \<open>None\<close> when the pass waits in a \<^verbatim>\<open>c.Lock()\<close>. The
  \<^verbatim>\<open>return\<close> of line 306 comes before the \<^verbatim>\<open>c.Unlock()\<close> of line 310, and nothing is
  deferred that unlocks.
\<close>

definition rtcTrackHandlerIter_mu ::
  "mutex \<Rightarrow> Conn \<Rightarrow> trackIn \<Rightarrow> effect list \<times> control option \<times> mutex" where
  "rtcTrackHandlerIter_mu m c i =
     (if trackQuitChan c = Some ChanClosed then ([], Some Return, m)
      else
        (case readRTP i of
           Inl err \<Rightarrow>
             ([ReadRTP, ErrChanSend (Err (''error reading RTP packet: '' @ Error err))],
              Some Continue, m)
         | Inr p \<Rightarrow>
             (case Lock m of
                None \<Rightarrow> ([ReadRTP], None, m)
              | Some m1 \<Rightarrow>
                  (case spSock c of
                     None \<Rightarrow> ([ReadRTP], Some Continue, Unlock m1)
                   | Some s \<Rightarrow>
                       let m2 = Unlock m1 in
                       (case sbPop i of
                          None \<Rightarrow> ([ReadRTP, SbPush p, SbPop], Some Continue, m2)
                        | Some sample \<Rightarrow>
                            (case Lock m2 of
                               None \<Rightarrow> ([ReadRTP, SbPush p, SbPop], None, m2)
                             | Some m3 \<Rightarrow>
                                 (case send i of
                                    None \<Rightarrow>
                                      ([ReadRTP, SbPush p, SbPop,
                                        SockSend s (frameOf (spTopic c) sample)],
                                       Some Continue, Unlock m3)
                                  | Some err \<Rightarrow>
                                      if err = ErrClosed
                                      then ([ReadRTP, SbPush p, SbPop,
                                             SockSend s (frameOf (spTopic c) sample),
                                             Log (''sub sock send err: '' @ Error err @ [CHR 0x0A])],
                                            Some Return, m3)
                                      else ([ReadRTP, SbPush p, SbPop,
                                             SockSend s (frameOf (spTopic c) sample),
                                             ErrChanSend (Err (''pub send failed: '' @ Error err))],
                                            Some Continue, Unlock m3))))))))"

text \<open>
  The \<^verbatim>\<open>for\<close> loop over the answers of the world, one per pass. When the answers run
  out the loop is still running (\<open>Continue\<close>): it waits in \<^verbatim>\<open>ReadRTP\<close>.
\<close>

fun rtcTrackHandlerLoop ::
  "mutex \<Rightarrow> Conn \<Rightarrow> trackIn list \<Rightarrow> effect list \<times> control option \<times> mutex" where
  "rtcTrackHandlerLoop m c [] = ([], Some Continue, m)"
| "rtcTrackHandlerLoop m c (i # rest) =
     (case rtcTrackHandlerIter_mu m c i of
        (es, Some Continue, m') \<Rightarrow>
          (case rtcTrackHandlerLoop m' c rest of (es', r, m'') \<Rightarrow> (es @ es', r, m''))
      | (es, r, m') \<Rightarrow> (es, r, m'))"

text \<open>
  The goroutine of \<^verbatim>\<open>rtcTrackHandler\<close> (lines 268-312). When the loop returns, the
  deferred calls run, last deferred first: \<^verbatim>\<open>c.Close()\<close> (line 272), then the log line
  (line 271). \<^verbatim>\<open>c.Close()\<close> starts from the mutex as the loop left it; when it waits in
  \<^verbatim>\<open>c.Lock()\<close> the goroutine has not ended (\<open>None\<close>) and the log line is not reached.
\<close>

definition rtcTrackHandler ::
  "mutex \<Rightarrow> Conn \<Rightarrow> trackIn list \<Rightarrow> effect list \<times> control option \<times> mutex \<times> Conn" where
  "rtcTrackHandler m c ins =
     (case rtcTrackHandlerLoop m c ins of
        (es, None, m') \<Rightarrow> (es, None, m', c)
      | (es, Some Continue, m') \<Rightarrow> (es, Some Continue, m', c)
      | (es, Some r, m') \<Rightarrow>
          (case Conn_Close m' c of
             (m'', None) \<Rightarrow> (es, None, m'', c)
           | (m'', Some (Inl p)) \<Rightarrow>
               (es @ [Log (''rtcTrackhandler goroutine quitting...'' @ [CHR 0x0A])],
                Some (Panicked p), m'', c)
           | (m'', Some (Inr (es', c'))) \<Rightarrow>
               (es @ es' @ [Log (''rtcTrackhandler goroutine quitting...'' @ [CHR 0x0A])],
                Some r, m'', c')))"

subsection \<open>The relay of errors and notices\<close>






section \<open>Properties\<close>

subsection \<open>Helper facts\<close>

lemma Uint32_PutUint32: "Uint32 (PutUint32 v) = v"
  unfolding Uint32_def PutUint32_def
  apply simp
  apply (rule bit_word_eqI)
  apply (auto simp add: bit_simps)
  subgoal for n by (cases "24 \<le> n") auto
  done

lemma length_PutUint32: "length (PutUint32 v) = 4"
  by (simp add: PutUint32_def)

lemma sampleOf_frameOf:
  assumes "length topic = 4"
  shows "sampleOf (frameOf topic sample) = Inr sample"
proof -
  have len: "length (frameOf topic sample) = 8 + length (Data sample)"
    using assms by (simp add: frameOf_def length_PutUint32)
  have d8: "drop 8 (frameOf topic sample) = Data sample"
    using assms by (simp add: frameOf_def length_PutUint32)
  have t4: "take 4 (drop 4 (frameOf topic sample)) = PutUint32 (Samples sample)"
    using assms by (simp add: frameOf_def length_PutUint32)
  show ?thesis
    using len by (simp add: sampleOf_def d8 t4 Uint32_PutUint32)
qed

lemma Close_closed: "hasClosed c \<Longrightarrow> Close c = Inr ([], c)"
  by (simp add: Close_def)

lemma Close_hasClosed: "Close c = Inr (es, c') \<Longrightarrow> hasClosed c'"
  by (auto simp: Close_def Let_def split: if_splits option.splits)

lemma Conn_Close_Unlocked: "Conn_Close Unlocked c = (Unlocked, Some (Close c))"
  by (simp add: Conn_Close_def Lock_def Unlock_def)

lemma Conn_Close_Locked: "Conn_Close Locked c = (Locked, None)"
  by (simp add: Conn_Close_def Lock_def)

lemma CloseTimes_Locked: "CloseTimes n Locked c = Inr ([], 0, Locked, c)"
  by (induction n) (simp_all add: Conn_Close_Locked)

lemma CloseTimes_closed: "hasClosed c \<Longrightarrow> CloseTimes n Unlocked c = Inr ([], n, Unlocked, c)"
  by (induction n) (simp_all add: Conn_Close_Unlocked Close_closed)

lemma CloseTimes_first:
  assumes "Close c = Inr (es, c')" and "0 < n"
  shows "CloseTimes n Unlocked c = Inr (es, n, Unlocked, c')"
proof -
  obtain k where n: "n = Suc k" using assms(2) by (cases n) auto
  have "hasClosed c'" using assms(1) by (rule Close_hasClosed)
  then have "CloseTimes k Unlocked c' = Inr ([], k, Unlocked, c')" by (rule CloseTimes_closed)
  then show ?thesis using assms(1) n by (simp add: Conn_Close_Unlocked)
qed

text \<open>
  From a free mutex, the pass with the mutex does what \<open>rtcTrackHandlerIter\<close> does, and
  it leaves the mutex locked on one path only: the return of line 306.
\<close>

lemma rtcTrackHandlerIter_mu_Unlocked:
  "rtcTrackHandlerIter_mu Unlocked c i =
     (fst (rtcTrackHandlerIter c i), Some (snd (rtcTrackHandlerIter c i)),
      if trackQuitChan c \<noteq> Some ChanClosed \<and> (\<exists>p. readRTP i = Inr p) \<and> spSock c \<noteq> None
           \<and> sbPop i \<noteq> None \<and> send i = Some ErrClosed
      then Locked else Unlocked)"
  by (simp add: rtcTrackHandlerIter_mu_def rtcTrackHandlerIter_def Lock_def Unlock_def Let_def
      split: sum.splits option.splits)

lemma Close_open:
  assumes "\<not> hasClosed c" and "trackQuitChan c \<noteq> Some ChanClosed"
  shows "Close c = Inr
     ((case trackQuitChan c of None \<Rightarrow> [] | Some q \<Rightarrow> [CloseChan])
      @ (case rtcPeer c of None \<Rightarrow> [] | Some p \<Rightarrow> [PeerClose p])
      @ (case spSock c of None \<Rightarrow> [] | Some s \<Rightarrow> if \<not> isPublisher c then [SockClose s] else [])
      @ (case wsConn c of None \<Rightarrow> [] | Some w \<Rightarrow> [WsClose w]),
      c\<lparr>trackQuitChan := (case trackQuitChan c of None \<Rightarrow> None | Some q \<Rightarrow> Some ChanClosed),
        hasClosed := True\<rparr>)"
  using assms
  by (cases "trackQuitChan c") (simp_all add: Close_def Let_def split: option.splits)

subsection \<open>Close and the session mutex\<close>

text \<open>
  Claim C1 says that whichever callers invoke \<^verbatim>\<open>Close\<close>, the pipeline teardown among
  them, the teardown runs exactly once. The run below is the publisher of channel
  "alpha" as \<^verbatim>\<open>connectPublisher\<close> leaves it, with the mutex free. Its track loop reads a
  packet, gets a sample, and \<^verbatim>\<open>Send\<close> answers \<^verbatim>\<open>mangos.ErrClosed\<close>. The loop returns at
  line 306 with the mutex locked, so the deferred \<^verbatim>\<open>c.Close()\<close> of line 272 waits in
  \<^verbatim>\<open>c.Lock()\<close>: the goroutine does not end, no resource is closed and \<^verbatim>\<open>hasClosed\<close> stays
  false. Three more calls of \<^verbatim>\<open>Close\<close> by other callers wait as well: none of them
  returns and nothing is closed. The teardown runs zero times.
\<close>

theorem track_teardown_never_runs:
  "connectPublisher
      \<lparr>publisherPassword = [], pubSocket = Some 0, reg_AddPublisher = None,
       reg_AddSubscriber = None, sub_NewSocket = Inr 5, sock_Dial = None, sock_SetOption = None\<rparr>
      \<lparr>Channel = ''alpha'', Password = []\<rparr>
      ((NewConn (Some 1))\<lparr>rtcPeer := Some 2\<rparr>)
    = (None,
       [Log (''setting up publisher for channel '' @ [CHR 0x27] @ ''alpha'' @ [CHR 0x27, CHR 0x0A]),
        RegAddPublisher ''alpha''],
       \<lparr>rtcPeer = Some 2, wsConn = Some 1, spSock = Some 0, channelName = ''alpha'',
        spTopic = [171, 109, 139, 93], trackQuitChan = Some ChanOpen,
        isPublisher = False, hasClosed = False\<rparr>)
   \<and> rtcTrackHandler Unlocked
      \<lparr>rtcPeer = Some 2, wsConn = Some 1, spSock = Some 0, channelName = ''alpha'',
       spTopic = [171, 109, 139, 93], trackQuitChan = Some ChanOpen,
       isPublisher = False, hasClosed = False\<rparr>
      [\<lparr>readRTP = Inr [128, 111], sbPop = Some \<lparr>Data = [7, 9], Samples = 960\<rparr>,
        send = Some ErrClosed\<rparr>]
    = ([ReadRTP, SbPush [128, 111], SbPop, SockSend 0 [171, 109, 139, 93, 192, 3, 0, 0, 7, 9],
        Log (''sub sock send err: object closed'' @ [CHR 0x0A])],
       None, Locked,
       \<lparr>rtcPeer = Some 2, wsConn = Some 1, spSock = Some 0, channelName = ''alpha'',
        spTopic = [171, 109, 139, 93], trackQuitChan = Some ChanOpen,
        isPublisher = False, hasClosed = False\<rparr>)
   \<and> Conn_Close Locked
      \<lparr>rtcPeer = Some 2, wsConn = Some 1, spSock = Some 0, channelName = ''alpha'',
       spTopic = [171, 109, 139, 93], trackQuitChan = Some ChanOpen,
       isPublisher = False, hasClosed = False\<rparr>
    = (Locked, None)
   \<and> CloseTimes 3 Locked
      \<lparr>rtcPeer = Some 2, wsConn = Some 1, spSock = Some 0, channelName = ''alpha'',
       spTopic = [171, 109, 139, 93], trackQuitChan = Some ChanOpen,
       isPublisher = False, hasClosed = False\<rparr>
    = Inr ([], 0, Locked,
       \<lparr>rtcPeer = Some 2, wsConn = Some 1, spSock = Some 0, channelName = ''alpha'',
        spTopic = [171, 109, 139, 93], trackQuitChan = Some ChanOpen,
        isPublisher = False, hasClosed = False\<rparr>)"
proof -
  let ?c = "\<lparr>rtcPeer = Some 2, wsConn = Some 1, spSock = Some 0, channelName = ''alpha'',
       spTopic = [171, 109, 139, 93], trackQuitChan = Some ChanOpen,
       isPublisher = False, hasClosed = False\<rparr>"
  have w: "(960 :: 8 word) = 192" by simp
  have a: "connectPublisher
      \<lparr>publisherPassword = [], pubSocket = Some 0, reg_AddPublisher = None,
       reg_AddSubscriber = None, sub_NewSocket = Inr 5, sock_Dial = None, sock_SetOption = None\<rparr>
      \<lparr>Channel = ''alpha'', Password = []\<rparr>
      ((NewConn (Some 1))\<lparr>rtcPeer := Some 2\<rparr>)
    = (None,
       [Log (''setting up publisher for channel '' @ [CHR 0x27] @ ''alpha'' @ [CHR 0x27, CHR 0x0A]),
        RegAddPublisher ''alpha''], ?c)"
    by (simp add: connectPublisher_def NewConn_def setTopic_def hash_def
        offset32_def prime32_def PutUint32_def channelRegexp_MatchString_def inChannelClass_def
        Let_def)
  have b: "rtcTrackHandler Unlocked ?c
      [\<lparr>readRTP = Inr [128, 111], sbPop = Some \<lparr>Data = [7, 9], Samples = 960\<rparr>,
        send = Some ErrClosed\<rparr>]
    = ([ReadRTP, SbPush [128, 111], SbPop, SockSend 0 [171, 109, 139, 93, 192, 3, 0, 0, 7, 9],
        Log (''sub sock send err: object closed'' @ [CHR 0x0A])],
       None, Locked, ?c)"
    by (simp add: rtcTrackHandler_def rtcTrackHandlerIter_mu_def Conn_Close_def Lock_def
        Unlock_def frameOf_def PutUint32_def w Let_def)
  have c: "Conn_Close Locked ?c = (Locked, None)"
    by (simp add: Conn_Close_def Lock_def)
  have d: "CloseTimes 3 Locked ?c = Inr ([], 0, Locked, ?c)"
    by (simp add: numeral_3_eq_3 Conn_Close_def Lock_def)
  show ?thesis using a b c d by simp
qed

text \<open>
  The same for every session and every such pass. Let the quit channel be open (or
  nil), the bus socket set, the mutex free, and let a pass of the track loop read a
  packet, get a sample and have \<^verbatim>\<open>Send\<close> answer \<^verbatim>\<open>mangos.ErrClosed\<close>. Then the goroutine
  logs the error and waits in the \<^verbatim>\<open>c.Lock()\<close> of its deferred \<^verbatim>\<open>c.Close()\<close>, with the
  mutex locked and the session as it was; and any number of later calls of \<^verbatim>\<open>Close\<close>
  has no effect: none returns, and the session is not closed.
\<close>

theorem send_ErrClosed_blocks_teardown:
  assumes "trackQuitChan c \<noteq> Some ChanClosed" and "spSock c = Some s"
    and "readRTP i = Inr p" and "sbPop i = Some sample" and "send i = Some ErrClosed"
  shows "rtcTrackHandlerIter_mu Unlocked c i =
           ([ReadRTP, SbPush p, SbPop, SockSend s (frameOf (spTopic c) sample),
             Log (''sub sock send err: object closed'' @ [CHR 0x0A])], Some Return, Locked)
       \<and> rtcTrackHandler Unlocked c (i # rest) =
           ([ReadRTP, SbPush p, SbPop, SockSend s (frameOf (spTopic c) sample),
             Log (''sub sock send err: object closed'' @ [CHR 0x0A])], None, Locked, c)
       \<and> CloseTimes n Locked c = Inr ([], 0, Locked, c)"
proof -
  have it: "rtcTrackHandlerIter_mu Unlocked c i =
           ([ReadRTP, SbPush p, SbPop, SockSend s (frameOf (spTopic c) sample),
             Log (''sub sock send err: object closed'' @ [CHR 0x0A])], Some Return, Locked)"
    using assms by (simp add: rtcTrackHandlerIter_mu_def Lock_def Unlock_def Let_def)
  have lp: "rtcTrackHandlerLoop Unlocked c (i # rest) =
           ([ReadRTP, SbPush p, SbPop, SockSend s (frameOf (spTopic c) sample),
             Log (''sub sock send err: object closed'' @ [CHR 0x0A])], Some Return, Locked)"
    by (simp add: it)
  have gr: "rtcTrackHandler Unlocked c (i # rest) =
           ([ReadRTP, SbPush p, SbPop, SockSend s (frameOf (spTopic c) sample),
             Log (''sub sock send err: object closed'' @ [CHR 0x0A])], None, Locked, c)"
    by (simp del: rtcTrackHandlerLoop.simps add: rtcTrackHandler_def lp Conn_Close_Locked)
  show ?thesis using it gr CloseTimes_Locked by simp
qed

theorem send_ErrClosed_blocks_teardown_witness:
  "rtcTrackHandler Unlocked
      \<lparr>rtcPeer = Some 2, wsConn = Some 1, spSock = Some 0, channelName = ''alpha'',
       spTopic = [171, 109, 139, 93], trackQuitChan = Some ChanOpen,
       isPublisher = False, hasClosed = False\<rparr>
      [\<lparr>readRTP = Inr [128, 111], sbPop = Some \<lparr>Data = [7, 9], Samples = 960\<rparr>,
        send = Some ErrClosed\<rparr>,
       \<lparr>readRTP = Inr [128, 112], sbPop = None, send = None\<rparr>]
    = ([ReadRTP, SbPush [128, 111], SbPop, SockSend 0 [171, 109, 139, 93, 192, 3, 0, 0, 7, 9],
        Log (''sub sock send err: object closed'' @ [CHR 0x0A])],
       None, Locked,
       \<lparr>rtcPeer = Some 2, wsConn = Some 1, spSock = Some 0, channelName = ''alpha'',
        spTopic = [171, 109, 139, 93], trackQuitChan = Some ChanOpen,
        isPublisher = False, hasClosed = False\<rparr>)
   \<and> CloseTimes 5 Locked
      \<lparr>rtcPeer = Some 2, wsConn = Some 1, spSock = Some 0, channelName = ''alpha'',
       spTopic = [171, 109, 139, 93], trackQuitChan = Some ChanOpen,
       isPublisher = False, hasClosed = False\<rparr>
    = Inr ([], 0, Locked,
       \<lparr>rtcPeer = Some 2, wsConn = Some 1, spSock = Some 0, channelName = ''alpha'',
        spTopic = [171, 109, 139, 93], trackQuitChan = Some ChanOpen,
        isPublisher = False, hasClosed = False\<rparr>)"
proof -
  have w: "(960 :: 8 word) = 192" by simp
  note r = send_ErrClosed_blocks_teardown [of
      "\<lparr>rtcPeer = Some 2, wsConn = Some 1, spSock = Some 0, channelName = ''alpha'',
       spTopic = [171, 109, 139, 93], trackQuitChan = Some ChanOpen,
       isPublisher = False, hasClosed = False\<rparr>"
      0
      "\<lparr>readRTP = Inr [128, 111], sbPop = Some \<lparr>Data = [7, 9], Samples = 960\<rparr>,
        send = Some ErrClosed\<rparr>"
      "[128, 111]" "\<lparr>Data = [7, 9], Samples = 960\<rparr>"
      "[\<lparr>readRTP = Inr [128, 112], sbPop = None, send = None\<rparr>]" 5]
  show ?thesis using r by (simp del: rtcTrackHandlerLoop.simps CloseTimes.simps
      add: frameOf_def PutUint32_def w)
qed

text \<open>
  What \<^verbatim>\<open>Close\<close> does when the mutex is free at the first call. Take a session that is
  not closed and whose quit channel is not closed (as every session made by \<^verbatim>\<open>NewConn\<close>
  is until its first \<^verbatim>\<open>Close\<close>). Then any number \<open>n > 0\<close> of calls does what the first
  call does and nothing more: every call returns and leaves the mutex free, no call
  panics, the flag \<^verbatim>\<open>hasClosed\<close> is set by the first call and every later call returns
  at once, and over all \<open>n\<close> calls the quit channel, the peer, the session's bus socket
  and the websocket are each closed exactly once when they are set (the bus socket when
  \<^verbatim>\<open>isPublisher\<close> is false), and never otherwise.
\<close>

theorem Close_once_when_mutex_free:
  assumes "\<not> hasClosed c" and "trackQuitChan c \<noteq> Some ChanClosed" and "0 < n"
  shows "\<exists>es c'. Conn_Close Unlocked c = (Unlocked, Some (Inr (es, c')))
           \<and> CloseTimes n Unlocked c = Inr (es, n, Unlocked, c')
           \<and> hasClosed c' \<and> Conn_Close Unlocked c' = (Unlocked, Some (Inr ([], c')))
           \<and> count_list es CloseChan = (if trackQuitChan c = None then 0 else 1)
           \<and> (\<forall>p. count_list es (PeerClose p) = (if rtcPeer c = Some p then 1 else 0))
           \<and> (\<forall>s. count_list es (SockClose s)
                   = (if spSock c = Some s \<and> \<not> isPublisher c then 1 else 0))
           \<and> (\<forall>w. count_list es (WsClose w) = (if wsConn c = Some w then 1 else 0))"
proof -
  obtain es c' where cl: "Close c = Inr (es, c')"
    and es: "es = (case trackQuitChan c of None \<Rightarrow> [] | Some q \<Rightarrow> [CloseChan])
      @ (case rtcPeer c of None \<Rightarrow> [] | Some p \<Rightarrow> [PeerClose p])
      @ (case spSock c of None \<Rightarrow> [] | Some s \<Rightarrow> if \<not> isPublisher c then [SockClose s] else [])
      @ (case wsConn c of None \<Rightarrow> [] | Some w \<Rightarrow> [WsClose w])"
    using Close_open [OF assms(1,2)] by blast
  have h: "hasClosed c'" using cl by (rule Close_hasClosed)
  have f: "Conn_Close Unlocked c = (Unlocked, Some (Inr (es, c')))"
    by (simp add: Conn_Close_Unlocked cl)
  have t: "CloseTimes n Unlocked c = Inr (es, n, Unlocked, c')"
    using cl assms(3) by (rule CloseTimes_first)
  have again: "Conn_Close Unlocked c' = (Unlocked, Some (Inr ([], c')))"
    using h by (simp add: Conn_Close_Unlocked Close_closed)
  have c1: "count_list es CloseChan = (if trackQuitChan c = None then 0 else 1)"
    by (simp add: es split: option.splits)
  have c2: "\<forall>p. count_list es (PeerClose p) = (if rtcPeer c = Some p then 1 else 0)"
    by (simp add: es split: option.splits)
  have c3: "\<forall>s. count_list es (SockClose s)
                   = (if spSock c = Some s \<and> \<not> isPublisher c then 1 else 0)"
    by (simp add: es split: option.splits)
  have c4: "\<forall>w. count_list es (WsClose w) = (if wsConn c = Some w then 1 else 0)"
    by (simp add: es split: option.splits)
  show ?thesis using f t h again c1 c2 c3 c4 by blast
qed

theorem Close_once_when_mutex_free_witness:
  "\<not> hasClosed ((NewConn (Some 1))\<lparr>rtcPeer := Some 2, spSock := Some 5\<rparr>)
   \<and> trackQuitChan ((NewConn (Some 1))\<lparr>rtcPeer := Some 2, spSock := Some 5\<rparr>) \<noteq> Some ChanClosed
   \<and> (0::nat) < 3
   \<and> (\<exists>es c'. CloseTimes 3 Unlocked ((NewConn (Some 1))\<lparr>rtcPeer := Some 2, spSock := Some 5\<rparr>)
                 = Inr (es, 3, Unlocked, c')
         \<and> hasClosed c' \<and> count_list es (SockClose 5) = 1 \<and> count_list es (WsClose 1) = 1
         \<and> count_list es (PeerClose 2) = 1 \<and> count_list es CloseChan = 1)"
proof -
  let ?c = "(NewConn (Some 1))\<lparr>rtcPeer := Some 2, spSock := Some 5\<rparr>"
  have h1: "\<not> hasClosed ?c" by (simp add: NewConn_def)
  have h2: "trackQuitChan ?c \<noteq> Some ChanClosed" by (simp add: NewConn_def)
  have h3: "(0::nat) < 3" by simp
  from Close_once_when_mutex_free [OF h1 h2 h3] obtain es c'
    where a: "CloseTimes 3 Unlocked ?c = Inr (es, 3, Unlocked, c')" and b: "hasClosed c'"
      and c1: "count_list es CloseChan = (if trackQuitChan ?c = None then 0 else 1)"
      and c2: "\<forall>p. count_list es (PeerClose p) = (if rtcPeer ?c = Some p then 1 else 0)"
      and c3: "\<forall>s. count_list es (SockClose s)
                   = (if spSock ?c = Some s \<and> \<not> isPublisher ?c then 1 else 0)"
      and c4: "\<forall>w. count_list es (WsClose w) = (if wsConn ?c = Some w then 1 else 0)"
    by blast
  have d1: "count_list es CloseChan = 1" using c1 by (simp add: NewConn_def)
  have d2: "count_list es (PeerClose 2) = 1" using c2 by (simp add: NewConn_def)
  have d3: "count_list es (SockClose 5) = 1" using c3 by (simp add: NewConn_def)
  have d4: "count_list es (WsClose 1) = 1" using c4 by (simp add: NewConn_def)
  show ?thesis using h1 h2 h3 a b d1 d2 d3 d4 by blast
qed


lemma connectPublisher_isPublisher:
  "connectPublisher x cmd c = (r, es, c') \<Longrightarrow> isPublisher c' = isPublisher c"
  by (auto simp: connectPublisher_def setTopic_def Let_def split: if_splits option.splits)

lemma connectPublisher_ok_topic:
  assumes "connectPublisher x cmd c = (None, es, c')"
  shows "spTopic c' = PutUint32 (hash (Channel cmd)) \<and> channelName c' = Channel cmd
         \<and> spSock c' = pubSocket x"
  using assms
  by (auto simp: connectPublisher_def setTopic_def Let_def split: if_splits option.splits)

lemma connectSubscriber_ok_topic:
  assumes "connectSubscriber x cmd c = (None, es, c')"
  shows "spTopic c' = PutUint32 (hash (Channel cmd)) \<and> channelName c' = Channel cmd
         \<and> (\<exists>s. sub_NewSocket x = Inr s \<and> spSock c' = Some s
                \<and> SockSubscribe s (spTopic c') \<in> set es)"
  using assms
  by (auto simp: connectSubscriber_def setTopic_def Let_def
      split: if_splits option.splits sum.splits)

lemma connectPublisher_alpha:
  "connectPublisher
      \<lparr>publisherPassword = [], pubSocket = Some 0, reg_AddPublisher = None,
       reg_AddSubscriber = None, sub_NewSocket = Inr 5, sock_Dial = None, sock_SetOption = None\<rparr>
      \<lparr>Channel = ''alpha'', Password = []\<rparr>
      ((NewConn (Some 1))\<lparr>rtcPeer := Some 2\<rparr>)
    = (None,
       [Log (''setting up publisher for channel '' @ [CHR 0x27] @ ''alpha'' @ [CHR 0x27, CHR 0x0A]),
        RegAddPublisher ''alpha''],
       \<lparr>rtcPeer = Some 2, wsConn = Some 1, spSock = Some 0, channelName = ''alpha'',
        spTopic = [171, 109, 139, 93], trackQuitChan = Some ChanOpen,
        isPublisher = False, hasClosed = False\<rparr>)"
  by (simp add: connectPublisher_def NewConn_def setTopic_def hash_def
      offset32_def prime32_def PutUint32_def channelRegexp_MatchString_def inChannelClass_def Let_def)

lemma connectSubscriber_alpha:
  "connectSubscriber
      \<lparr>publisherPassword = [], pubSocket = Some 0, reg_AddPublisher = None,
       reg_AddSubscriber = None, sub_NewSocket = Inr 5, sock_Dial = None, sock_SetOption = None\<rparr>
      \<lparr>Channel = ''alpha'', Password = []\<rparr>
      ((NewConn (Some 3))\<lparr>rtcPeer := Some 4\<rparr>)
    = (None,
       [Log (''setting up subscriber for channel '' @ [CHR 0x27] @ ''alpha'' @ [CHR 0x27, CHR 0x0A]),
        SockDial 5 ''inproc://babelcast/'', SockSubscribe 5 [171, 109, 139, 93],
        RegAddSubscriber ''alpha'', GoSubscriberLoop],
       \<lparr>rtcPeer = Some 4, wsConn = Some 3, spSock = Some 5, channelName = ''alpha'',
        spTopic = [171, 109, 139, 93], trackQuitChan = Some ChanOpen,
        isPublisher = False, hasClosed = False\<rparr>)"
  by (simp add: connectSubscriber_def NewConn_def setTopic_def hash_def
      offset32_def prime32_def PutUint32_def channelRegexp_MatchString_def inChannelClass_def Let_def)


subsection \<open>The shared publish socket\<close>

text \<open>
  Claim C2 says that \<^verbatim>\<open>Close\<close> of a publisher session never closes the shared
  \<^verbatim>\<open>pubSocket\<close>. The guard of line 242 skips the bus socket when \<^verbatim>\<open>isPublisher\<close> is
  true, but nothing in \<^verbatim>\<open>conn.go\<close> sets that field: \<^verbatim>\<open>NewConn\<close> leaves it false and
  \<^verbatim>\<open>connectPublisher\<close> stores \<^verbatim>\<open>pubSocket\<close> in \<^verbatim>\<open>spSock\<close> without touching it. The run
  below is a session made by \<^verbatim>\<open>NewConn\<close>, with its peer set, bound as publisher of
  channel "alpha" (\<^verbatim>\<open>pubSocket\<close> is socket 0), then closed: \<^verbatim>\<open>Close\<close> calls \<^verbatim>\<open>Close\<close> on
  socket 0.
\<close>

theorem publisher_Close_closes_pubSocket:
  "connectPublisher
      \<lparr>publisherPassword = [], pubSocket = Some 0, reg_AddPublisher = None,
       reg_AddSubscriber = None, sub_NewSocket = Inr 5, sock_Dial = None, sock_SetOption = None\<rparr>
      \<lparr>Channel = ''alpha'', Password = []\<rparr>
      ((NewConn (Some 1))\<lparr>rtcPeer := Some 2\<rparr>)
    = (None,
       [Log (''setting up publisher for channel '' @ [CHR 0x27] @ ''alpha'' @ [CHR 0x27, CHR 0x0A]),
        RegAddPublisher ''alpha''],
       \<lparr>rtcPeer = Some 2, wsConn = Some 1, spSock = Some 0, channelName = ''alpha'',
        spTopic = [171, 109, 139, 93], trackQuitChan = Some ChanOpen,
        isPublisher = False, hasClosed = False\<rparr>)
   \<and> Close \<lparr>rtcPeer = Some 2, wsConn = Some 1, spSock = Some 0, channelName = ''alpha'',
        spTopic = [171, 109, 139, 93], trackQuitChan = Some ChanOpen,
        isPublisher = False, hasClosed = False\<rparr>
    = Inr ([CloseChan, PeerClose 2, SockClose 0, WsClose 1],
       \<lparr>rtcPeer = Some 2, wsConn = Some 1, spSock = Some 0, channelName = ''alpha'',
        spTopic = [171, 109, 139, 93], trackQuitChan = Some ChanClosed,
        isPublisher = False, hasClosed = True\<rparr>)"
  by (simp add: connectPublisher_def Close_def NewConn_def setTopic_def hash_def
      offset32_def prime32_def PutUint32_def channelRegexp_MatchString_def inChannelClass_def Let_def)

text \<open>
  The same for every publisher binding of a session that \<^verbatim>\<open>NewConn\<close> made: when
  \<^verbatim>\<open>connectPublisher\<close> succeeds and \<^verbatim>\<open>pubSocket\<close> is set, the session's \<^verbatim>\<open>Close\<close> closes
  \<^verbatim>\<open>pubSocket\<close>.
\<close>

theorem publisher_Close_closes_shared:
  assumes "connectPublisher x cmd ((NewConn ws)\<lparr>rtcPeer := Some p\<rparr>) = (None, es, c')"
    and "pubSocket x = Some s"
  shows "\<exists>es' c''. Close c' = Inr (es', c'') \<and> SockClose s \<in> set es'"
proof -
  have "isPublisher c' = isPublisher ((NewConn ws)\<lparr>rtcPeer := Some p\<rparr>)"
    using assms(1) by (rule connectPublisher_isPublisher)
  then have np: "\<not> isPublisher c'" by (simp add: NewConn_def)
  have sk: "spSock c' = Some s"
    using connectPublisher_ok_topic [OF assms(1)] assms(2) by simp
  have nc: "\<not> hasClosed c'" and tq: "trackQuitChan c' \<noteq> Some ChanClosed"
    using assms(1)
    by (auto simp: connectPublisher_def setTopic_def NewConn_def Let_def
        split: if_splits option.splits)
  show ?thesis
    using Close_open [OF nc tq] np sk by simp
qed

theorem publisher_Close_closes_shared_witness:
  "\<exists>es' c''.
     Close \<lparr>rtcPeer = Some 2, wsConn = Some 1, spSock = Some 0, channelName = ''alpha'',
        spTopic = [171, 109, 139, 93], trackQuitChan = Some ChanOpen,
        isPublisher = False, hasClosed = False\<rparr> = Inr (es', c'')
     \<and> SockClose 0 \<in> set es'"
proof -
  note r = publisher_Close_closes_shared [OF connectPublisher_alpha, of 0]
  show ?thesis using r by simp
qed

text \<open>
  What the guard of line 242 does when the flag is set: a session whose \<^verbatim>\<open>isPublisher\<close>
  is true never closes its bus socket in \<^verbatim>\<open>Close\<close>.
\<close>

theorem Close_isPublisher_guard:
  "isPublisher c \<Longrightarrow> Close c = Inr (es, c') \<Longrightarrow> SockClose s \<notin> set es"
  by (auto simp: Close_def Let_def split: if_splits option.splits)

theorem Close_isPublisher_guard_witness:
  "Close \<lparr>rtcPeer = Some 2, wsConn = Some 1, spSock = Some 0, channelName = ''alpha'',
        spTopic = [171, 109, 139, 93], trackQuitChan = Some ChanOpen,
        isPublisher = True, hasClosed = False\<rparr>
    = Inr ([CloseChan, PeerClose 2, WsClose 1],
        \<lparr>rtcPeer = Some 2, wsConn = Some 1, spSock = Some 0, channelName = ''alpha'',
        spTopic = [171, 109, 139, 93], trackQuitChan = Some ChanClosed,
        isPublisher = True, hasClosed = True\<rparr>)
   \<and> SockClose 0 \<notin> set [CloseChan, PeerClose 2, WsClose 1]"
proof -
  have c: "Close \<lparr>rtcPeer = Some 2, wsConn = Some 1, spSock = Some 0, channelName = ''alpha'',
        spTopic = [171, 109, 139, 93], trackQuitChan = Some ChanOpen,
        isPublisher = True, hasClosed = False\<rparr>
    = Inr ([CloseChan, PeerClose 2, WsClose 1],
        \<lparr>rtcPeer = Some 2, wsConn = Some 1, spSock = Some 0, channelName = ''alpha'',
        spTopic = [171, 109, 139, 93], trackQuitChan = Some ChanClosed,
        isPublisher = True, hasClosed = True\<rparr>)"
    by (simp add: Close_def)
  note r = Close_isPublisher_guard [OF _ c, of 0]
  show ?thesis using c r by simp
qed

subsection \<open>Frames shorter than eight bytes\<close>

text \<open>
  Claim C3 says that a bus message of fewer than 8 bytes fails to decode with a
  recoverable error that is reported and skipped, and that the loop goes on. In the code
  the pass over a 7-byte message ends in a panic (slice bounds out of range): nothing is
  sent to \<^verbatim>\<open>errChan\<close> and the loop does not go on.
\<close>

theorem short_frame_counterexample:
  "subscriberIter
      \<lparr>rtcPeer = Some 2, wsConn = Some 1, spSock = Some 5, channelName = ''alpha'',
       spTopic = [171, 109, 139, 93], trackQuitChan = Some ChanOpen,
       isPublisher = False, hasClosed = False\<rparr>
      \<lparr>ctxDone = False, recv = Inr [171, 109, 139, 93, 1, 0, 0], writeSample = None\<rparr>
   = ([SockRecv 5], Panicked ''slice bounds out of range'')"
  by (simp add: subscriberIter_def sampleOf_def)

text \<open>
  Claim C3 as amended. The receive loop has no malformed-frame error. For every bus
  message it receives (context not done, socket and peer set): a message of fewer than 8
  bytes makes the slice expressions of lines 220-221 panic, with nothing reported; a
  message of 8 bytes or more is decoded (sample count from bytes 4 to 7, little endian,
  payload from byte 8 on), written to the track, and the loop continues.
\<close>

theorem subscriber_decode:
  assumes "\<not> ctxDone i" and "spSock c = Some s" and "rtcPeer c = Some peer"
    and "recv i = Inr data"
  shows "(length data < 8 \<longrightarrow>
            subscriberIter c i = ([SockRecv s], Panicked ''slice bounds out of range''))
       \<and> (8 \<le> length data \<longrightarrow>
            subscriberIter c i =
              ([SockRecv s,
                TrackWriteSample peer
                  \<lparr>Data = drop 8 data, Samples = Uint32 (take 4 (drop 4 data))\<rparr>],
               Continue))"
  using assms by (simp add: subscriberIter_def sampleOf_def)

theorem subscriber_decode_witness:
  "subscriberIter
      \<lparr>rtcPeer = Some 2, wsConn = Some 1, spSock = Some 5, channelName = ''alpha'',
       spTopic = [171, 109, 139, 93], trackQuitChan = Some ChanOpen,
       isPublisher = False, hasClosed = False\<rparr>
      \<lparr>ctxDone = False, recv = Inr [171, 109, 139, 93, 192, 3, 0, 0, 7, 9], writeSample = None\<rparr>
   = ([SockRecv 5, TrackWriteSample 2 \<lparr>Data = [7, 9], Samples = 960\<rparr>], Continue)"
  using subscriber_decode [of
      "\<lparr>ctxDone = False, recv = Inr [171, 109, 139, 93, 192, 3, 0, 0, 7, 9], writeSample = None\<rparr>"
      "\<lparr>rtcPeer = Some 2, wsConn = Some 1, spSock = Some 5, channelName = ''alpha'',
       spTopic = [171, 109, 139, 93], trackQuitChan = Some ChanOpen,
       isPublisher = False, hasClosed = False\<rparr>" 5 2 "[171, 109, 139, 93, 192, 3, 0, 0, 7, 9]"]
  by (simp add: Uint32_def)

subsection \<open>Encoding and decoding a frame\<close>

text \<open>
  Claim C4. Round trip: let the publisher's session hold a 4-byte topic, and let its
  track loop get a sample with any payload (so also every non-empty one) and any 32-bit
  sample count. The frame it sends is the topic, then the count in little endian, then
  the payload, \<open>8 + length payload\<close> bytes in all; and a subscriber's receive loop that
  gets this frame writes a sample with the same count and the same payload to its track.
\<close>

theorem frame_roundtrip:
  assumes "length (spTopic cp) = 4"
    and "trackQuitChan cp \<noteq> Some ChanClosed"
    and "spSock cp = Some s"
    and "readRTP i = Inr p"
    and "sbPop i = Some \<lparr>Data = payload, Samples = n\<rparr>"
    and "send i = None"
    and "spSock cs = Some s'"
    and "rtcPeer cs = Some peer"
  shows "\<exists>frame.
           rtcTrackHandlerIter cp i = ([ReadRTP, SbPush p, SbPop, SockSend s frame], Continue)
         \<and> frame = spTopic cp @ PutUint32 n @ payload
         \<and> length frame = 8 + length payload
         \<and> sampleOf frame = Inr \<lparr>Data = payload, Samples = n\<rparr>
         \<and> subscriberIter cs \<lparr>ctxDone = False, recv = Inr frame, writeSample = w\<rparr> =
             ([SockRecv s', TrackWriteSample peer \<lparr>Data = payload, Samples = n\<rparr>], Continue)"
proof -
  let ?sample = "\<lparr>Data = payload, Samples = n\<rparr>"
  let ?frame = "frameOf (spTopic cp) ?sample"
  have a: "rtcTrackHandlerIter cp i = ([ReadRTP, SbPush p, SbPop, SockSend s ?frame], Continue)"
    using assms(2-6) by (simp add: rtcTrackHandlerIter_def)
  have f: "?frame = spTopic cp @ PutUint32 n @ payload"
    by (simp add: frameOf_def)
  have b: "length ?frame = 8 + length payload"
    using assms(1) by (simp add: frameOf_def length_PutUint32)
  have c: "sampleOf ?frame = Inr ?sample"
    using assms(1) by (rule sampleOf_frameOf)
  have d: "subscriberIter cs \<lparr>ctxDone = False, recv = Inr ?frame, writeSample = w\<rparr> =
           ([SockRecv s', TrackWriteSample peer ?sample], Continue)"
    using assms(7,8) by (simp add: subscriberIter_def c)
  show ?thesis using a f b c d by blast
qed

theorem frame_roundtrip_witness:
  "rtcTrackHandlerIter
      \<lparr>rtcPeer = Some 2, wsConn = Some 1, spSock = Some 0, channelName = ''alpha'',
       spTopic = [171, 109, 139, 93], trackQuitChan = Some ChanOpen,
       isPublisher = False, hasClosed = False\<rparr>
      \<lparr>readRTP = Inr [128, 111], sbPop = Some \<lparr>Data = [7, 9], Samples = 960\<rparr>, send = None\<rparr>
     = ([ReadRTP, SbPush [128, 111], SbPop, SockSend 0 [171, 109, 139, 93, 192, 3, 0, 0, 7, 9]],
        Continue)
   \<and> subscriberIter
      \<lparr>rtcPeer = Some 4, wsConn = Some 3, spSock = Some 5, channelName = ''alpha'',
       spTopic = [171, 109, 139, 93], trackQuitChan = Some ChanOpen,
       isPublisher = False, hasClosed = False\<rparr>
      \<lparr>ctxDone = False, recv = Inr [171, 109, 139, 93, 192, 3, 0, 0, 7, 9], writeSample = None\<rparr>
     = ([SockRecv 5, TrackWriteSample 4 \<lparr>Data = [7, 9], Samples = 960\<rparr>], Continue)"
proof -
  have w: "(960 :: 8 word) = 192" by simp
  note r = frame_roundtrip [of
      "\<lparr>rtcPeer = Some 2, wsConn = Some 1, spSock = Some 0, channelName = ''alpha'',
       spTopic = [171, 109, 139, 93], trackQuitChan = Some ChanOpen,
       isPublisher = False, hasClosed = False\<rparr>"
      0
      "\<lparr>readRTP = Inr [128, 111], sbPop = Some \<lparr>Data = [7, 9], Samples = 960\<rparr>, send = None\<rparr>"
      "[128, 111]" "[7, 9]" 960
      "\<lparr>rtcPeer = Some 4, wsConn = Some 3, spSock = Some 5, channelName = ''alpha'',
       spTopic = [171, 109, 139, 93], trackQuitChan = Some ChanOpen,
       isPublisher = False, hasClosed = False\<rparr>"
      5 4 None]
  show ?thesis using r by (simp add: PutUint32_def w)
qed

subsection \<open>Topics\<close>

text \<open>
  Claim C5. The topic a successful binding stores is the FNV-1a hash of the bytes of the
  channel name, as four bytes in little endian; it is a function of the name alone.
  A publisher and a subscriber bound to the same name hold the same topic: the filter
  the subscriber sets on its socket is the first four bytes of every frame the publisher
  sends.
\<close>

theorem topic_derivation:
  assumes "connectPublisher xp cmdp cp = (None, esp, cp')"
    and "connectSubscriber xs cmds cs = (None, ess, cs')"
    and "Channel cmdp = Channel cmds"
  shows "spTopic cp' = PutUint32 (fnv32a_Write offset32 (map of_char (Channel cmdp)))
       \<and> length (spTopic cp') = 4
       \<and> spTopic cs' = spTopic cp'
       \<and> (\<exists>s. spSock cs' = Some s \<and> SockSubscribe s (spTopic cs') \<in> set ess)
       \<and> take 4 (frameOf (spTopic cp') sample) = spTopic cs'"
proof -
  have p: "spTopic cp' = PutUint32 (hash (Channel cmdp))"
    using connectPublisher_ok_topic [OF assms(1)] by simp
  have s: "spTopic cs' = PutUint32 (hash (Channel cmds))"
    using connectSubscriber_ok_topic [OF assms(2)] by simp
  have sub: "\<exists>s. spSock cs' = Some s \<and> SockSubscribe s (spTopic cs') \<in> set ess"
    using connectSubscriber_ok_topic [OF assms(2)] by blast
  have l: "length (spTopic cp') = 4" by (simp add: p length_PutUint32)
  have e: "spTopic cs' = spTopic cp'" by (simp add: p s assms(3))
  have t: "take 4 (frameOf (spTopic cp') sample) = spTopic cs'"
    using l by (simp add: frameOf_def e)
  show ?thesis using p l e sub t by (simp add: hash_def)
qed

theorem topic_derivation_witness:
  "spTopic \<lparr>rtcPeer = Some 2, wsConn = Some 1, spSock = Some 0, channelName = ''alpha'',
        spTopic = [171, 109, 139, 93], trackQuitChan = Some ChanOpen,
        isPublisher = False, hasClosed = False\<rparr>
     = PutUint32 (fnv32a_Write offset32 (map of_char ''alpha''))
   \<and> take 4 (frameOf [171, 109, 139, 93] \<lparr>Data = [7, 9], Samples = 960\<rparr>) = [171, 109, 139, 93]"
proof -
  note r = topic_derivation [OF connectPublisher_alpha connectSubscriber_alpha,
      of "\<lparr>Data = [7, 9], Samples = 960\<rparr>"]
  show ?thesis using r by (simp add: offset32_def prime32_def PutUint32_def frameOf_def)
qed

subsection \<open>Validation in connect\<close>

text \<open>
  Claim C6. A connect is rejected with an error, no effect and the session unchanged
  when the peer is not set, or the channel name is empty, or the name has a character
  outside the ASCII letters, digits and space, or, for the publisher when
  \<^verbatim>\<open>publisherPassword\<close> is not empty, the password differs. The name "room 1" passes the
  character check and "room#1" does not.
\<close>

theorem connect_validation_atomic:
  "(rtcPeer c = None \<or> Channel cmd = [] \<or> channelRegexp_MatchString (Channel cmd)
      \<or> (publisherPassword x \<noteq> [] \<and> Password cmd \<noteq> publisherPassword x)
     \<longrightarrow> (\<exists>e. connectPublisher x cmd c = (Some e, [], c)))
   \<and> (rtcPeer c = None \<or> Channel cmd = [] \<or> channelRegexp_MatchString (Channel cmd)
     \<longrightarrow> (\<exists>e. connectSubscriber x cmd c = (Some e, [], c)))
   \<and> (channelRegexp_MatchString (Channel cmd)
        \<longleftrightarrow> (\<exists>ch \<in> set (Channel cmd). \<not> inChannelClass ch))
   \<and> \<not> channelRegexp_MatchString ''room 1''
   \<and> channelRegexp_MatchString ''room#1''"
proof -
  have p: "rtcPeer c = None \<or> Channel cmd = [] \<or> channelRegexp_MatchString (Channel cmd)
      \<or> (publisherPassword x \<noteq> [] \<and> Password cmd \<noteq> publisherPassword x)
     \<longrightarrow> (\<exists>e. connectPublisher x cmd c = (Some e, [], c))"
    by (simp add: connectPublisher_def)
  have s: "rtcPeer c = None \<or> Channel cmd = [] \<or> channelRegexp_MatchString (Channel cmd)
     \<longrightarrow> (\<exists>e. connectSubscriber x cmd c = (Some e, [], c))"
    by (simp add: connectSubscriber_def)
  have m: "channelRegexp_MatchString (Channel cmd)
        \<longleftrightarrow> (\<exists>ch \<in> set (Channel cmd). \<not> inChannelClass ch)"
    by (simp add: channelRegexp_MatchString_def list_ex_iff)
  have a: "\<not> channelRegexp_MatchString ''room 1''"
    by (simp add: channelRegexp_MatchString_def inChannelClass_def)
  have b: "channelRegexp_MatchString ''room#1''"
    by (simp add: channelRegexp_MatchString_def inChannelClass_def)
  show ?thesis using p s m a b by blast
qed

theorem connect_validation_atomic_witness:
  "channelRegexp_MatchString ''room#1''
   \<and> (\<exists>e. connectPublisher
        \<lparr>publisherPassword = ''secret'', pubSocket = Some 0, reg_AddPublisher = None,
         reg_AddSubscriber = None, sub_NewSocket = Inr 5, sock_Dial = None, sock_SetOption = None\<rparr>
        \<lparr>Channel = ''room#1'', Password = ''secret''\<rparr>
        ((NewConn (Some 1))\<lparr>rtcPeer := Some 2\<rparr>)
      = (Some e, [], (NewConn (Some 1))\<lparr>rtcPeer := Some 2\<rparr>))
   \<and> (\<exists>e. connectSubscriber
        \<lparr>publisherPassword = ''secret'', pubSocket = Some 0, reg_AddPublisher = None,
         reg_AddSubscriber = None, sub_NewSocket = Inr 5, sock_Dial = None, sock_SetOption = None\<rparr>
        \<lparr>Channel = ''room#1'', Password = ''secret''\<rparr>
        ((NewConn (Some 1))\<lparr>rtcPeer := Some 2\<rparr>)
      = (Some e, [], (NewConn (Some 1))\<lparr>rtcPeer := Some 2\<rparr>))"
proof -
  note r = connect_validation_atomic [of
      "(NewConn (Some 1))\<lparr>rtcPeer := Some 2\<rparr>"
      "\<lparr>Channel = ''room#1'', Password = ''secret''\<rparr>"
      "\<lparr>publisherPassword = ''secret'', pubSocket = Some 0, reg_AddPublisher = None,
         reg_AddSubscriber = None, sub_NewSocket = Inr 5, sock_Dial = None, sock_SetOption = None\<rparr>"]
  have m: "channelRegexp_MatchString ''room#1''" using r by blast
  show ?thesis using r m by simp
qed

subsection \<open>Errors of the subscriber's receive\<close>

text \<open>
  Claim C7. In a pass of the receive loop whose \<^verbatim>\<open>Recv\<close> fails: if the error is
  \<^verbatim>\<open>mangos.ErrClosed\<close> the loop returns, and the goroutine's deferred \<^verbatim>\<open>Close\<close> closes
  the session; any other error is sent to \<^verbatim>\<open>errChan\<close> and the loop goes on with the
  next pass.
\<close>

theorem subscriber_recv_errors:
  assumes "\<not> ctxDone i" and "spSock c = Some s" and "recv i = Inl err"
  shows "(err = ErrClosed \<longrightarrow>
            subscriberIter c i =
              ([SockRecv s, Log (''sub sock recv err: '' @ Error err @ [CHR 0x0A])], Return)
          \<and> subscriberLoop c (i # rest) =
              ([SockRecv s, Log (''sub sock recv err: '' @ Error err @ [CHR 0x0A])], Return)
          \<and> (\<forall>es' c'. Close c = Inr (es', c') \<longrightarrow>
                hasClosed c'
              \<and> subscriberGoroutine c (i # rest) =
                  ([SockRecv s, Log (''sub sock recv err: '' @ Error err @ [CHR 0x0A])] @ es'
                   @ [Log (''sub read goroutine quitting...'' @ [CHR 0x0A])], c', Return)))
       \<and> (err \<noteq> ErrClosed \<longrightarrow>
            subscriberIter c i =
              ([SockRecv s, ErrChanSend (Err (''sub sock recv err '' @ Error err @ [CHR 0x0A]))],
               Continue)
          \<and> subscriberLoop c (i # rest) =
              ([SockRecv s, ErrChanSend (Err (''sub sock recv err '' @ Error err @ [CHR 0x0A]))]
               @ fst (subscriberLoop c rest), snd (subscriberLoop c rest)))"
proof (cases "err = ErrClosed")
  case True
  have it: "subscriberIter c i =
              ([SockRecv s, Log (''sub sock recv err: '' @ Error err @ [CHR 0x0A])], Return)"
    using assms True by (simp add: subscriberIter_def)
  have lp: "subscriberLoop c (i # rest) =
              ([SockRecv s, Log (''sub sock recv err: '' @ Error err @ [CHR 0x0A])], Return)"
    by (simp add: it)
  have gr: "\<forall>es' c'. Close c = Inr (es', c') \<longrightarrow>
                hasClosed c'
              \<and> subscriberGoroutine c (i # rest) =
                  ([SockRecv s, Log (''sub sock recv err: '' @ Error err @ [CHR 0x0A])] @ es'
                   @ [Log (''sub read goroutine quitting...'' @ [CHR 0x0A])], c', Return)"
    using Close_hasClosed
    by (auto simp del: subscriberLoop.simps simp: subscriberGoroutine_def lp)
  show ?thesis using True it lp gr by blast
next
  case False
  have it: "subscriberIter c i =
              ([SockRecv s, ErrChanSend (Err (''sub sock recv err '' @ Error err @ [CHR 0x0A]))],
               Continue)"
    using assms False by (simp add: subscriberIter_def)
  have lp: "subscriberLoop c (i # rest) =
              ([SockRecv s, ErrChanSend (Err (''sub sock recv err '' @ Error err @ [CHR 0x0A]))]
               @ fst (subscriberLoop c rest), snd (subscriberLoop c rest))"
    by (simp add: it split: prod.splits)
  show ?thesis using False it lp by blast
qed

theorem subscriber_recv_errors_witness:
  "subscriberGoroutine
      \<lparr>rtcPeer = Some 4, wsConn = Some 3, spSock = Some 5, channelName = ''alpha'',
       spTopic = [171, 109, 139, 93], trackQuitChan = Some ChanOpen,
       isPublisher = False, hasClosed = False\<rparr>
      [\<lparr>ctxDone = False, recv = Inl (Err ''timeout''), writeSample = None\<rparr>,
       \<lparr>ctxDone = False, recv = Inl ErrClosed, writeSample = None\<rparr>]
   = ([SockRecv 5, ErrChanSend (Err (''sub sock recv err timeout'' @ [CHR 0x0A])),
       SockRecv 5, Log (''sub sock recv err: object closed'' @ [CHR 0x0A]),
       CloseChan, PeerClose 4, SockClose 5, WsClose 3,
       Log (''sub read goroutine quitting...'' @ [CHR 0x0A])],
      \<lparr>rtcPeer = Some 4, wsConn = Some 3, spSock = Some 5, channelName = ''alpha'',
       spTopic = [171, 109, 139, 93], trackQuitChan = Some ChanClosed,
       isPublisher = False, hasClosed = True\<rparr>,
      Return)"
proof -
  let ?c = "\<lparr>rtcPeer = Some 4, wsConn = Some 3, spSock = Some 5, channelName = ''alpha'',
       spTopic = [171, 109, 139, 93], trackQuitChan = Some ChanOpen,
       isPublisher = False, hasClosed = False\<rparr>"
  let ?i1 = "\<lparr>ctxDone = False, recv = Inl (Err ''timeout''), writeSample = None\<rparr>"
  let ?i2 = "\<lparr>ctxDone = False, recv = Inl ErrClosed, writeSample = None\<rparr>"
  have r1: "subscriberLoop ?c [?i1, ?i2] =
      ([SockRecv 5, ErrChanSend (Err (''sub sock recv err '' @ Error (Err ''timeout'') @ [CHR 0x0A]))]
       @ fst (subscriberLoop ?c [?i2]), snd (subscriberLoop ?c [?i2]))"
    using subscriber_recv_errors [of ?i1 ?c 5 "Err ''timeout''" "[?i2]"]
    by (simp del: subscriberLoop.simps)
  have r2: "subscriberLoop ?c [?i2] =
      ([SockRecv 5, Log (''sub sock recv err: '' @ Error ErrClosed @ [CHR 0x0A])], Return)"
    using subscriber_recv_errors [of ?i2 ?c 5 ErrClosed "[]"]
    by (simp del: subscriberLoop.simps)
  show ?thesis
    by (simp del: subscriberLoop.simps add: subscriberGoroutine_def r1 r2 Close_def)
qed

subsection \<open>The relay task\<close>



subsection \<open>Packets before a binding\<close>

text \<open>
  Claim C9 says that a packet read while \<^verbatim>\<open>spSock\<close> is nil is pushed into the sample
  builder and the sample that comes out is discarded. In the code the pass ends at line
  289, before \<^verbatim>\<open>sb.Push\<close>: the packet is not pushed.
\<close>

theorem unbound_packet_counterexample:
  "SbPush [128, 111] \<notin> set (fst (rtcTrackHandlerIter
      ((NewConn (Some 1))\<lparr>rtcPeer := Some 2\<rparr>)
      \<lparr>readRTP = Inr [128, 111], sbPop = Some \<lparr>Data = [7, 9], Samples = 960\<rparr>, send = None\<rparr>))"
  by (simp add: rtcTrackHandlerIter_def NewConn_def)

text \<open>
  Claim C9 as amended. For every packet read while the session has no bus socket (and
  the quit channel is not closed), the pass ends right after the read: the packet is
  dropped before the sample builder, nothing is popped, published or kept, and the loop
  continues.
\<close>

theorem unbound_packet_dropped:
  assumes "spSock c = None" and "trackQuitChan c \<noteq> Some ChanClosed" and "readRTP i = Inr p"
  shows "rtcTrackHandlerIter c i = ([ReadRTP], Continue)"
  using assms by (simp add: rtcTrackHandlerIter_def)

theorem unbound_packet_dropped_witness:
  "rtcTrackHandlerIter
      ((NewConn (Some 1))\<lparr>rtcPeer := Some 2\<rparr>)
      \<lparr>readRTP = Inr [128, 111], sbPop = Some \<lparr>Data = [7, 9], Samples = 960\<rparr>, send = None\<rparr>
   = ([ReadRTP], Continue)"
proof -
  note r = unbound_packet_dropped [of
      "(NewConn (Some 1))\<lparr>rtcPeer := Some 2\<rparr>"
      "\<lparr>readRTP = Inr [128, 111], sbPop = Some \<lparr>Data = [7, 9], Samples = 960\<rparr>, send = None\<rparr>"
      "[128, 111]"]
  show ?thesis using r by (simp add: NewConn_def)
qed

subsection \<open>The result of WriteSample\<close>

text \<open>
  Claim C10. In a pass of the receive loop that decodes a frame, whatever error
  \<^verbatim>\<open>WriteSample\<close> returns: the effects are the receive and the write only (nothing is
  sent to \<^verbatim>\<open>errChan\<close>), the loop goes on to the next receive, and the session is
  not closed.
\<close>

theorem track_write_result_discarded:
  assumes "\<not> ctxDone i" and "spSock c = Some s" and "rtcPeer c = Some peer"
    and "recv i = Inr data" and "8 \<le> length data"
  shows "\<exists>sample.
           sampleOf data = Inr sample
         \<and> subscriberIter c (i\<lparr>writeSample := w\<rparr>) =
             ([SockRecv s, TrackWriteSample peer sample], Continue)
         \<and> subscriberLoop c (i\<lparr>writeSample := w\<rparr> # rest) =
             ([SockRecv s, TrackWriteSample peer sample] @ fst (subscriberLoop c rest),
              snd (subscriberLoop c rest))
         \<and> subscriberGoroutine c [i\<lparr>writeSample := w\<rparr>] =
             ([SockRecv s, TrackWriteSample peer sample], c, Continue)"
proof -
  let ?sample = "\<lparr>Data = drop 8 data, Samples = Uint32 (take 4 (drop 4 data))\<rparr>"
  have d: "sampleOf data = Inr ?sample"
    using assms(5) by (simp add: sampleOf_def)
  have it: "subscriberIter c (i\<lparr>writeSample := w\<rparr>) =
             ([SockRecv s, TrackWriteSample peer ?sample], Continue)"
    using assms(1-4) by (simp add: subscriberIter_def d)
  have lp: "subscriberLoop c (i\<lparr>writeSample := w\<rparr> # rest) =
             ([SockRecv s, TrackWriteSample peer ?sample] @ fst (subscriberLoop c rest),
              snd (subscriberLoop c rest))"
    by (simp add: it split: prod.splits)
  have gr: "subscriberGoroutine c [i\<lparr>writeSample := w\<rparr>] =
             ([SockRecv s, TrackWriteSample peer ?sample], c, Continue)"
    by (simp add: subscriberGoroutine_def it)
  show ?thesis using d it lp gr by blast
qed

theorem track_write_result_discarded_witness:
  "subscriberGoroutine
      \<lparr>rtcPeer = Some 4, wsConn = Some 3, spSock = Some 5, channelName = ''alpha'',
       spTopic = [171, 109, 139, 93], trackQuitChan = Some ChanOpen,
       isPublisher = False, hasClosed = False\<rparr>
      [\<lparr>ctxDone = False, recv = Inr [171, 109, 139, 93, 192, 3, 0, 0, 7, 9],
        writeSample = Some (Err ''track closed'')\<rparr>]
   = ([SockRecv 5, TrackWriteSample 4 \<lparr>Data = [7, 9], Samples = 960\<rparr>],
      \<lparr>rtcPeer = Some 4, wsConn = Some 3, spSock = Some 5, channelName = ''alpha'',
       spTopic = [171, 109, 139, 93], trackQuitChan = Some ChanOpen,
       isPublisher = False, hasClosed = False\<rparr>,
      Continue)"
proof -
  note r = track_write_result_discarded [of
      "\<lparr>ctxDone = False, recv = Inr [171, 109, 139, 93, 192, 3, 0, 0, 7, 9], writeSample = None\<rparr>"
      "\<lparr>rtcPeer = Some 4, wsConn = Some 3, spSock = Some 5, channelName = ''alpha'',
       spTopic = [171, 109, 139, 93], trackQuitChan = Some ChanOpen,
       isPublisher = False, hasClosed = False\<rparr>"
      5 4 "[171, 109, 139, 93, 192, 3, 0, 0, 7, 9]" "Some (Err ''track closed'')"]
  show ?thesis using r by (simp add: sampleOf_def Uint32_def)
qed

end
